theory Spec2Isabelle
  imports Complex_Main "HOL-Library.AList" "HOL-Library.Word"
begin

section \<open>Python values\<close>

text \<open>
  The class \<open>Content\<close> of \<open>hermes/nappy/tools.py\<close> stores whatever objects it is given in
  two dictionaries, so the model works over a universe of dynamically typed values.
  A \<open>str\<close> is its list of Unicode code points, \<open>bytes\<close> is a list of octets, a \<open>dict\<close> is an
  association list in insertion order whose keys are strings (every key the class uses
  is a string literal).  Floats are only passed through by the class, never computed
  with, and are carried as real numbers.  Values are compared by value.  The methods
  are first written for an instance that holds each of its dictionaries in one place;
  the section on object identity then gives dictionaries an identity and follows the
  writes of the two methods through shared dictionaries.
\<close>

datatype pyval =
    PNone
  | PBool bool
  | PInt int
  | PFloat real
  | PStr "nat list"
  | PBytes "8 word list"
  | PList "pyval list"
  | PTuple "pyval list"
  | PDict "(string \<times> pyval) list"

datatype error =
    TypeError
  | KeyError string
  | AttributeError
  | UnicodeDecodeError
  | UnicodeEncodeError
  | ClientError string

text \<open>Sequencing of computations that may raise: the first exception wins.\<close>

definition bind_e :: "error + 'a \<Rightarrow> ('a \<Rightarrow> error + 'b) \<Rightarrow> error + 'b" where
  "bind_e m f = (case m of Inl e \<Rightarrow> Inl e | Inr x \<Rightarrow> f x)"

text \<open>\<open>isinstance(v, str)\<close>, \<open>isinstance(v, bytes)\<close> and \<open>isinstance(v, dict)\<close>.\<close>

fun isinstance_str :: "pyval \<Rightarrow> bool" where
  "isinstance_str (PStr s) = True"
| "isinstance_str _ = False"

fun isinstance_binary_type :: "pyval \<Rightarrow> bool" where
  "isinstance_binary_type (PBytes bs) = True"
| "isinstance_binary_type _ = False"

fun isinstance_dict :: "pyval \<Rightarrow> bool" where
  "isinstance_dict (PDict d) = True"
| "isinstance_dict _ = False"

text \<open>
  \<open>obj[k]\<close> for a string key: a dictionary looks the key up and raises \<open>KeyError\<close> when
  it is absent; no other value of the universe can be subscripted with a string.
\<close>

fun getitem :: "pyval \<Rightarrow> string \<Rightarrow> error + pyval" where
  "getitem (PDict d) k = (case map_of d k of None \<Rightarrow> Inl (KeyError k) | Some v \<Rightarrow> Inr v)"
| "getitem _ k = Inl TypeError"

text \<open>
  \<open>obj[k] = v\<close> for a string key, returning the object after the assignment: an existing
  key keeps its position, a new key goes to the end.
\<close>

fun setitem :: "pyval \<Rightarrow> string \<Rightarrow> pyval \<Rightarrow> error + pyval" where
  "setitem (PDict d) k v = Inr (PDict (AList.update k v d))"
| "setitem _ k v = Inl TypeError"

text \<open>\<open>obj.append(v)\<close>, returning the object after the call: only lists have the method.\<close>

fun append_py :: "pyval \<Rightarrow> pyval \<Rightarrow> error + pyval" where
  "append_py (PList xs) v = Inr (PList (xs @ [v]))"
| "append_py _ v = Inl AttributeError"

fun len :: "pyval \<Rightarrow> error + nat" where
  "len (PList xs) = Inr (length xs)"
| "len (PTuple xs) = Inr (length xs)"
| "len (PStr s) = Inr (length s)"
| "len (PBytes bs) = Inr (length bs)"
| "len (PDict d) = Inr (length d)"
| "len _ = Inl TypeError"

text \<open>\<open>obj[k].append(v)\<close>: the list stored under \<open>k\<close> is extended in place.\<close>

definition append_at :: "pyval \<Rightarrow> string \<Rightarrow> pyval \<Rightarrow> error + pyval" where
  "append_at obj k v =
     bind_e (getitem obj k) (\<lambda>lst. bind_e (append_py lst v) (\<lambda>lst'. setitem obj k lst'))"

subsection \<open>UTF-8\<close>

text \<open>
  \<open>bytes.decode('utf-8')\<close> and \<open>str.encode('utf-8')\<close> with the default strict error
  handling: overlong forms, surrogates and code points above \<open>0x10FFFF\<close> are refused.
\<close>

definition continuation :: "8 word \<Rightarrow> bool" where
  "continuation b = (128 \<le> unat b \<and> unat b < 192)"

fun utf8_decode :: "8 word list \<Rightarrow> nat list option" where
  "utf8_decode [] = Some []"
| "utf8_decode (b # bs) =
     (if unat b < 128 then map_option ((#) (unat b)) (utf8_decode bs)
      else if 194 \<le> unat b \<and> unat b < 224 then
        (case bs of
           c1 # r \<Rightarrow>
             if continuation c1
             then map_option ((#) ((unat b - 192) * 64 + (unat c1 - 128))) (utf8_decode r)
             else None
         | _ \<Rightarrow> None)
      else if 224 \<le> unat b \<and> unat b < 240 then
        (case bs of
           c1 # c2 # r \<Rightarrow>
             (let cp = (unat b - 224) * 4096 + (unat c1 - 128) * 64 + (unat c2 - 128)
              in if continuation c1 \<and> continuation c2 \<and> 2048 \<le> cp
                    \<and> \<not> (55296 \<le> cp \<and> cp < 57344)
                 then map_option ((#) cp) (utf8_decode r)
                 else None)
         | _ \<Rightarrow> None)
      else if 240 \<le> unat b \<and> unat b < 245 then
        (case bs of
           c1 # c2 # c3 # r \<Rightarrow>
             (let cp = (unat b - 240) * 262144 + (unat c1 - 128) * 4096
                       + (unat c2 - 128) * 64 + (unat c3 - 128)
              in if continuation c1 \<and> continuation c2 \<and> continuation c3
                    \<and> 65536 \<le> cp \<and> cp < 1114112
                 then map_option ((#) cp) (utf8_decode r)
                 else None)
         | _ \<Rightarrow> None)
      else None)"

fun utf8_encode :: "nat list \<Rightarrow> 8 word list option" where
  "utf8_encode [] = Some []"
| "utf8_encode (cp # cps) =
     (if cp < 128 then map_option ((#) (of_nat cp)) (utf8_encode cps)
      else if cp < 2048 then
        map_option ((@) [of_nat (192 + cp div 64), of_nat (128 + cp mod 64)]) (utf8_encode cps)
      else if cp < 65536 then
        (if 55296 \<le> cp \<and> cp < 57344 then None
         else map_option
                ((@) [of_nat (224 + cp div 4096), of_nat (128 + cp div 64 mod 64),
                      of_nat (128 + cp mod 64)])
                (utf8_encode cps))
      else if cp < 1114112 then
        map_option
          ((@) [of_nat (240 + cp div 262144), of_nat (128 + cp div 4096 mod 64),
                of_nat (128 + cp div 64 mod 64), of_nat (128 + cp mod 64)])
          (utf8_encode cps)
      else None)"

text \<open>\<open>body.decode('utf-8')\<close> on a value already known to be \<open>bytes\<close>.\<close>

fun decode :: "pyval \<Rightarrow> error + pyval" where
  "decode (PBytes bs) =
     (case utf8_decode bs of None \<Rightarrow> Inl UnicodeDecodeError | Some t \<Rightarrow> Inr (PStr t))"
| "decode _ = Inl AttributeError"

text \<open>\<open>obj.encode("utf-8")\<close>: only \<open>str\<close> has the method.\<close>

fun encode :: "pyval \<Rightarrow> error + pyval" where
  "encode (PStr t) =
     (case utf8_encode t of None \<Rightarrow> Inl UnicodeEncodeError | Some bs \<Rightarrow> Inr (PBytes bs))"
| "encode _ = Inl AttributeError"

section \<open>The external client\<close>

text \<open>
  \<open>google.cloud.language\<close> is not part of the repository.  A document is the pair the
  class builds; the two responses are the typed messages whose attributes the class
  reads.  A client answers each request with a response or raises; its answers are a
  function of the request.
\<close>

datatype document_type = PLAIN_TEXT

record document =
  content :: pyval
  doc_type :: document_type

record sentiment_msg =
  score :: real
  magnitude :: real

record sentence =
  text_content :: "nat list"
  sentence_sentiment :: sentiment_msg

record annotations =
  document_sentiment :: sentiment_msg
  sentences :: "sentence list"

record category =
  name :: "nat list"
  confidence :: real

record classification =
  categories :: "category list"

record client =
  analyze_sentiment :: "document \<Rightarrow> error + annotations"
  classify_text :: "document \<Rightarrow> error + classification"

datatype client_call = AnalyzeSentiment document | ClassifyText document

section \<open>The class Content\<close>

text \<open>The two slots \<open>_source\<close> and \<open>_sentiment\<close>.\<close>

record Content =
  u_source :: pyval
  u_sentiment :: pyval

text \<open>The property getters.\<close>

definition source :: "Content \<Rightarrow> pyval" where
  "source c = u_source c"

definition sentiment :: "Content \<Rightarrow> pyval" where
  "sentiment c = u_sentiment c"

text \<open>
  The property setters.  A method that returns \<open>None\<close> yields the exception it raised,
  if any, together with the instance as the call left it.
\<close>

definition source_setter :: "pyval \<Rightarrow> Content \<Rightarrow> error option \<times> Content" where
  "source_setter data c =
     (if \<not> isinstance_dict data then (Some TypeError, c)
      else (None, c\<lparr>u_source := data\<rparr>))"

definition sentiment_setter :: "pyval \<Rightarrow> Content \<Rightarrow> error option \<times> Content" where
  "sentiment_setter data c =
     (if \<not> isinstance_dict data then (Some TypeError, c)
      else (None, c\<lparr>u_sentiment := data\<rparr>))"

text \<open>
  The keyword-only arguments of \<open>__init__\<close>.  Python's built-in \<open>str\<close>, applied to the
  date, is a parameter of the constructor's model.
\<close>

record init_args =
  title :: pyval
  author :: pyval
  date :: pyval
  url :: pyval
  body :: pyval
  origin :: pyval
  tags :: pyval
  misc :: pyval

definition Content_init :: "(pyval \<Rightarrow> nat list) \<Rightarrow> init_args \<Rightarrow> error + Content" where
  "Content_init str_of a =
     (let c0 = \<lparr>u_source = PNone, u_sentiment = PNone\<rparr>
      in bind_e (if isinstance_binary_type (body a) then decode (body a) else Inr (body a))
           (\<lambda>b.
              case source_setter
                     (PDict
                        [(''title'', title a),
                         (''author'', if isinstance_str (author a) then PList [author a] else author a),
                         (''date'', PStr (str_of (date a))),
                         (''url'', url a),
                         (''body'', b),
                         (''origin'', origin a),
                         (''tags'', if isinstance_str (tags a) then PList [tags a] else tags a),
                         (''misc'', if isinstance_str (misc a) then PList [misc a] else misc a)])
                     c0 of
                (Some e, c1) \<Rightarrow> Inl e
              | (None, c1) \<Rightarrow>
                  (case sentiment_setter (PDict []) c1 of
                     (Some e, c2) \<Rightarrow> Inl e
                   | (None, c2) \<Rightarrow> Inr c2)))"

subsection \<open>Methods\<close>

text \<open>
  The methods run against an instance and leave a record of the requests they sent to
  the client.
\<close>

record world =
  self :: Content
  calls :: "client_call list"

type_synonym stmt = "world \<Rightarrow> error option \<times> world"

text \<open>One statement after another; an exception ends the sequence where it is raised.\<close>

definition seq :: "stmt \<Rightarrow> stmt \<Rightarrow> stmt" where
  "seq s t w = (case s w of (Some e, w') \<Rightarrow> (Some e, w') | (None, w') \<Rightarrow> t w')"

text \<open>
  A statement that mutates the dictionary behind \<open>self.sentiment\<close> in place (it does
  not go through the setter).  Here no other place holds that dictionary, so the write
  shows in \<open>sentiment\<close> and nowhere else.
\<close>

definition mutate_sentiment :: "(pyval \<Rightarrow> error + pyval) \<Rightarrow> stmt" where
  "mutate_sentiment f w =
     (case f (sentiment (self w)) of
        Inl e \<Rightarrow> (Some e, w)
      | Inr s \<Rightarrow> (None, w\<lparr>self := (self w)\<lparr>u_sentiment := s\<rparr>\<rparr>))"

definition sentence_entry :: "sentence \<Rightarrow> pyval" where
  "sentence_entry s =
     PDict [(''text'', PStr (text_content s)),
            (''score'', PFloat (score (sentence_sentiment s))),
            (''magnitude'', PFloat (magnitude (sentence_sentiment s)))]"

fun analyse_loop :: "sentence list \<Rightarrow> stmt" where
  "analyse_loop [] w = (None, w)"
| "analyse_loop (s # ss) w =
     seq (mutate_sentiment (\<lambda>sent. append_at sent ''content'' (sentence_entry s)))
         (analyse_loop ss) w"

definition overall_entry :: "annotations \<Rightarrow> pyval" where
  "overall_entry ann =
     PDict [(''score'', PFloat (score (document_sentiment ann))),
            (''magnitude'', PFloat (magnitude (document_sentiment ann)))]"

definition analyse_document :: "Content \<Rightarrow> error + document" where
  "analyse_document c =
     bind_e (getitem (source c) ''body'') (\<lambda>b. Inr \<lparr>content = b, doc_type = PLAIN_TEXT\<rparr>)"

definition analyse :: "client \<Rightarrow> stmt" where
  "analyse cl w =
     (case analyse_document (self w) of
        Inl e \<Rightarrow> (Some e, w)
      | Inr doc \<Rightarrow>
          (let w1 = w\<lparr>calls := calls w @ [AnalyzeSentiment doc]\<rparr>
           in case analyze_sentiment cl doc of
                Inl e \<Rightarrow> (Some e, w1)
              | Inr ann \<Rightarrow>
                  seq (mutate_sentiment (\<lambda>sent. setitem sent ''overall'' (overall_entry ann)))
                   (seq (mutate_sentiment (\<lambda>sent. setitem sent ''content'' (PList [])))
                        (analyse_loop (sentences ann)))
                   w1))"

definition category_entry :: "category \<Rightarrow> pyval" where
  "category_entry cat =
     PDict [(''category'', PStr (name cat)), (''confidence'', PFloat (confidence cat))]"

definition sentinel_entry :: pyval where
  "sentinel_entry = PDict [(''category'', PStr []), (''confidence'', PInt 1)]"

text \<open>\<open>self.sentiment['overall']['categories'] = []\<close>\<close>

definition init_categories :: "pyval \<Rightarrow> error + pyval" where
  "init_categories sent =
     bind_e (getitem sent ''overall'')
       (\<lambda>ov. bind_e (setitem ov ''categories'' (PList []))
          (\<lambda>ov'. setitem sent ''overall'' ov'))"

text \<open>\<open>self.sentiment['overall']['categories'].append(v)\<close>\<close>

definition append_category :: "pyval \<Rightarrow> pyval \<Rightarrow> error + pyval" where
  "append_category v sent =
     bind_e (getitem sent ''overall'')
       (\<lambda>ov. bind_e (append_at ov ''categories'' v)
          (\<lambda>ov'. setitem sent ''overall'' ov'))"

fun classify_loop :: "category list \<Rightarrow> stmt" where
  "classify_loop [] w = (None, w)"
| "classify_loop (cat # cats) w =
     seq (mutate_sentiment (append_category (category_entry cat))) (classify_loop cats) w"

text \<open>The final \<open>if len(self.sentiment['overall']['categories']) == 0: ...\<close>\<close>

definition no_category_found :: stmt where
  "no_category_found w =
     (case bind_e (getitem (sentiment (self w)) ''overall'')
             (\<lambda>ov. bind_e (getitem ov ''categories'') len) of
        Inl e \<Rightarrow> (Some e, w)
      | Inr n \<Rightarrow>
          if n = 0 then mutate_sentiment (append_category sentinel_entry) w
          else (None, w))"

definition classify_document :: "Content \<Rightarrow> error + document" where
  "classify_document c =
     bind_e (getitem (source c) ''body'')
       (\<lambda>b. bind_e (encode b) (\<lambda>bs. Inr \<lparr>content = bs, doc_type = PLAIN_TEXT\<rparr>))"

definition classify :: "client \<Rightarrow> stmt" where
  "classify cl w =
     (case classify_document (self w) of
        Inl e \<Rightarrow> (Some e, w)
      | Inr doc \<Rightarrow>
          (let w1 = w\<lparr>calls := calls w @ [ClassifyText doc]\<rparr>
           in case classify_text cl doc of
                Inl e \<Rightarrow> (Some e, w1)
              | Inr resp \<Rightarrow>
                  seq (mutate_sentiment init_categories)
                   (seq (classify_loop (categories resp)) no_category_found)
                   w1))"

definition as_mapping :: "Content \<Rightarrow> pyval" where
  "as_mapping c = PDict [(''source'', source c), (''sentiment'', sentiment c)]"

definition jsonify :: "client \<Rightarrow> bool \<Rightarrow> world \<Rightarrow> (error + pyval) \<times> world" where
  "jsonify cl automagic w =
     (case (if automagic then seq (analyse cl) (classify cl) w else (None, w)) of
        (Some e, w') \<Rightarrow> (Inl e, w')
      | (None, w') \<Rightarrow> (Inr (as_mapping (self w')), w'))"

text \<open>
  The manual sequence the specification compares \<open>jsonify\<close> with: call \<open>analyse\<close>, then
  \<open>classify\<close>, then read \<open>{"source": source, "sentiment": sentiment}\<close>; an exception in
  either call ends the sequence.
\<close>

definition analyse_classify_read :: "client \<Rightarrow> world \<Rightarrow> (error + pyval) \<times> world" where
  "analyse_classify_read cl w =
     (case analyse cl w of
        (Some e, w1) \<Rightarrow> (Inl e, w1)
      | (None, w1) \<Rightarrow>
          (case classify cl w1 of
             (Some e, w2) \<Rightarrow> (Inl e, w2)
           | (None, w2) \<Rightarrow>
               (Inr (PDict [(''source'', source (self w2)), (''sentiment'', sentiment (self w2))]),
                w2)))"

section \<open>Object identity\<close>

text \<open>
  The setters keep the dictionary object they are given, and \<open>analyse\<close> and \<open>classify\<close>
  write into dictionary objects in place.  A write is therefore seen through every place
  that holds the same object: after \<open>c.sentiment = c.source\<close> the two fields are one
  dictionary, and after \<open>c.sentiment = {'overall': c.source}\<close> the entry \<open>overall\<close> is the
  source dictionary.  The methods above describe an instance whose dictionaries are held
  in one place each.  The store below gives dictionaries an identity: the two slots hold
  addresses of dictionary objects, and an entry of a dictionary object is either a value
  held by that entry alone or a reference to a dictionary object.  The lists and
  dictionaries that the two methods create are new objects, referred to from the entry
  they are assigned to and from nowhere else, so they are entries of the first kind.
  A dictionary that is shared through a list or a tuple is not represented; the two
  methods never write through a list they did not create.
\<close>

type_synonym addr = nat

datatype entry = Imm pyval | Ref addr

type_synonym dict_object = "(string \<times> entry) list"

record identity_world =
  source_at :: addr
  sentiment_at :: addr
  heap :: "addr \<Rightarrow> dict_object"
  requests :: "client_call list"

type_synonym stmt_st = "identity_world \<Rightarrow> error option \<times> identity_world"

definition seq_st :: "stmt_st \<Rightarrow> stmt_st \<Rightarrow> stmt_st" where
  "seq_st s t w = (case s w of (Some e, w') \<Rightarrow> (Some e, w') | (None, w') \<Rightarrow> t w')"

text \<open>\<open>d[k]\<close> and \<open>d[k] = e\<close> on the dictionary object at an address.\<close>

definition getitem_at :: "(addr \<Rightarrow> dict_object) \<Rightarrow> addr \<Rightarrow> string \<Rightarrow> error + entry" where
  "getitem_at h a k = (case map_of (h a) k of None \<Rightarrow> Inl (KeyError k) | Some e \<Rightarrow> Inr e)"

definition setitem_at ::
  "(addr \<Rightarrow> dict_object) \<Rightarrow> addr \<Rightarrow> string \<Rightarrow> entry \<Rightarrow> addr \<Rightarrow> dict_object" where
  "setitem_at h a k e = h(a := AList.update k e (h a))"

text \<open>
  The setters applied to a dictionary object: \<open>isinstance(data, dict)\<close> holds and the slot
  takes the object itself, not a copy.
\<close>

definition source_setter_at :: "addr \<Rightarrow> stmt_st" where
  "source_setter_at a w = (None, w\<lparr>source_at := a\<rparr>)"


text \<open>\<open>self.sentiment[k] = v\<close> for a newly built \<open>v\<close>.\<close>

definition set_sentiment_item :: "string \<Rightarrow> pyval \<Rightarrow> stmt_st" where
  "set_sentiment_item k v w =
     (None, w\<lparr>heap := setitem_at (heap w) (sentiment_at w) k (Imm v)\<rparr>)"

text \<open>\<open>self.sentiment['content'].append(v)\<close>; a dictionary object has no \<open>append\<close>.\<close>

definition append_content :: "pyval \<Rightarrow> stmt_st" where
  "append_content v w =
     (case getitem_at (heap w) (sentiment_at w) ''content'' of
        Inl e \<Rightarrow> (Some e, w)
      | Inr (Ref a) \<Rightarrow> (Some AttributeError, w)
      | Inr (Imm lst) \<Rightarrow>
          (case append_py lst v of
             Inl e \<Rightarrow> (Some e, w)
           | Inr lst' \<Rightarrow>
               (None, w\<lparr>heap := setitem_at (heap w) (sentiment_at w) ''content'' (Imm lst')\<rparr>)))"

fun analyse_loop_st :: "sentence list \<Rightarrow> stmt_st" where
  "analyse_loop_st [] w = (None, w)"
| "analyse_loop_st (s # ss) w = seq_st (append_content (sentence_entry s)) (analyse_loop_st ss) w"

text \<open>
  The request of \<open>analyse\<close>.  The content of a document is text; the message type refuses
  a dictionary.
\<close>

definition analyse_document_st :: "identity_world \<Rightarrow> error + document" where
  "analyse_document_st w =
     bind_e (getitem_at (heap w) (source_at w) ''body'')
       (\<lambda>e. case e of
               Imm b \<Rightarrow> Inr \<lparr>content = b, doc_type = PLAIN_TEXT\<rparr>
             | Ref a \<Rightarrow> Inl TypeError)"

definition analyse_st :: "client \<Rightarrow> stmt_st" where
  "analyse_st cl w =
     (case analyse_document_st w of
        Inl e \<Rightarrow> (Some e, w)
      | Inr doc \<Rightarrow>
          (let w1 = w\<lparr>requests := requests w @ [AnalyzeSentiment doc]\<rparr>
           in case analyze_sentiment cl doc of
                Inl e \<Rightarrow> (Some e, w1)
              | Inr ann \<Rightarrow>
                  seq_st (set_sentiment_item ''overall'' (overall_entry ann))
                   (seq_st (set_sentiment_item ''content'' (PList []))
                           (analyse_loop_st (sentences ann)))
                   w1))"

text \<open>\<open>self.sentiment['overall']['categories'] = []\<close>\<close>

definition init_categories_st :: stmt_st where
  "init_categories_st w =
     (case getitem_at (heap w) (sentiment_at w) ''overall'' of
        Inl e \<Rightarrow> (Some e, w)
      | Inr (Ref a) \<Rightarrow>
          (None, w\<lparr>heap := setitem_at (heap w) a ''categories'' (Imm (PList []))\<rparr>)
      | Inr (Imm ov) \<Rightarrow>
          (case setitem ov ''categories'' (PList []) of
             Inl e \<Rightarrow> (Some e, w)
           | Inr ov' \<Rightarrow>
               (None, w\<lparr>heap := setitem_at (heap w) (sentiment_at w) ''overall'' (Imm ov')\<rparr>)))"

text \<open>\<open>self.sentiment['overall']['categories'].append(v)\<close>\<close>

definition append_category_st :: "pyval \<Rightarrow> stmt_st" where
  "append_category_st v w =
     (case getitem_at (heap w) (sentiment_at w) ''overall'' of
        Inl e \<Rightarrow> (Some e, w)
      | Inr (Ref a) \<Rightarrow>
          (case getitem_at (heap w) a ''categories'' of
             Inl e \<Rightarrow> (Some e, w)
           | Inr (Ref b) \<Rightarrow> (Some AttributeError, w)
           | Inr (Imm lst) \<Rightarrow>
               (case append_py lst v of
                  Inl e \<Rightarrow> (Some e, w)
                | Inr lst' \<Rightarrow>
                    (None, w\<lparr>heap := setitem_at (heap w) a ''categories'' (Imm lst')\<rparr>)))
      | Inr (Imm ov) \<Rightarrow>
          (case append_at ov ''categories'' v of
             Inl e \<Rightarrow> (Some e, w)
           | Inr ov' \<Rightarrow>
               (None, w\<lparr>heap := setitem_at (heap w) (sentiment_at w) ''overall'' (Imm ov')\<rparr>)))"

fun classify_loop_st :: "category list \<Rightarrow> stmt_st" where
  "classify_loop_st [] w = (None, w)"
| "classify_loop_st (cat # cats) w =
     seq_st (append_category_st (category_entry cat)) (classify_loop_st cats) w"

text \<open>\<open>len(self.sentiment['overall']['categories'])\<close>\<close>

definition len_categories :: "identity_world \<Rightarrow> error + nat" where
  "len_categories w =
     (case getitem_at (heap w) (sentiment_at w) ''overall'' of
        Inl e \<Rightarrow> Inl e
      | Inr (Ref a) \<Rightarrow>
          (case getitem_at (heap w) a ''categories'' of
             Inl e \<Rightarrow> Inl e
           | Inr (Ref b) \<Rightarrow> Inr (length (heap w b))
           | Inr (Imm lst) \<Rightarrow> len lst)
      | Inr (Imm ov) \<Rightarrow> bind_e (getitem ov ''categories'') len)"

definition no_category_found_st :: stmt_st where
  "no_category_found_st w =
     (case len_categories w of
        Inl e \<Rightarrow> (Some e, w)
      | Inr n \<Rightarrow> if n = 0 then append_category_st sentinel_entry w else (None, w))"

text \<open>The request of \<open>classify\<close>; a dictionary object has no \<open>encode\<close>.\<close>

definition classify_document_st :: "identity_world \<Rightarrow> error + document" where
  "classify_document_st w =
     bind_e (getitem_at (heap w) (source_at w) ''body'')
       (\<lambda>e. case e of
               Imm b \<Rightarrow> bind_e (encode b) (\<lambda>bs. Inr \<lparr>content = bs, doc_type = PLAIN_TEXT\<rparr>)
             | Ref a \<Rightarrow> Inl AttributeError)"

definition classify_st :: "client \<Rightarrow> stmt_st" where
  "classify_st cl w =
     (case classify_document_st w of
        Inl e \<Rightarrow> (Some e, w)
      | Inr doc \<Rightarrow>
          (let w1 = w\<lparr>requests := requests w @ [ClassifyText doc]\<rparr>
           in case classify_text cl doc of
                Inl e \<Rightarrow> (Some e, w1)
              | Inr resp \<Rightarrow>
                  seq_st init_categories_st
                   (seq_st (classify_loop_st (categories resp)) no_category_found_st)
                   w1))"

text \<open>\<open>self.sentiment['overall'][k]\<close> read on the store.\<close>

definition overall_item :: "identity_world \<Rightarrow> string \<Rightarrow> error + entry" where
  "overall_item w k =
     (case getitem_at (heap w) (sentiment_at w) ''overall'' of
        Inl e \<Rightarrow> Inl e
      | Inr (Ref a) \<Rightarrow> getitem_at (heap w) a k
      | Inr (Imm ov) \<Rightarrow> (case getitem ov k of Inl e \<Rightarrow> Inl e | Inr v \<Rightarrow> Inr (Imm v)))"

text \<open>
  An instance of the first model as a store: the two dictionaries are two objects, at
  addresses \<open>0\<close> and \<open>1\<close>, and every entry is held by value.
\<close>

fun object_of :: "pyval \<Rightarrow> dict_object" where
  "object_of (PDict d) = map (\<lambda>(k, v). (k, Imm v)) d"
| "object_of _ = []"

definition store_of :: "world \<Rightarrow> identity_world" where
  "store_of w =
     \<lparr>source_at = 0, sentiment_at = 1,
      heap = (\<lambda>a. if a = 0 then object_of (u_source (self w))
                   else if a = 1 then object_of (u_sentiment (self w)) else []),
      requests = calls w\<rparr>"

section \<open>Observations and examples\<close>

text \<open>Construct an instance and read \<open>source[k]\<close>.\<close>

definition stored_field :: "(pyval \<Rightarrow> nat list) \<Rightarrow> init_args \<Rightarrow> string \<Rightarrow> error + pyval" where
  "stored_field str_of a k = bind_e (Content_init str_of a) (\<lambda>c. getitem (source c) k)"

text \<open>
  The list \<open>classify\<close> leaves under \<open>categories\<close> once its loop and the final test have
  run, as a function of the response.
\<close>

definition category_entries :: "classification \<Rightarrow> pyval list" where
  "category_entries resp =
     (if categories resp = [] then [sentinel_entry] else map category_entry (categories resp))"

text \<open>The code points of an ASCII literal.\<close>

definition code_points :: "string \<Rightarrow> nat list" where
  "code_points s = map of_char s"

text \<open>A stand-in for \<open>str\<close> on the example date, which is given as its text.\<close>

definition example_str :: "pyval \<Rightarrow> nat list" where
  "example_str v = (case v of PStr s \<Rightarrow> s | _ \<Rightarrow> [])"

definition example_args :: init_args where
  "example_args =
     \<lparr>title = PStr (code_points ''Oceans''), author = PStr (code_points ''Ann''),
      date = PStr (code_points ''2019-05-01 12:00:00''),
      url = PStr (code_points ''https://example.org/a''),
      body = PBytes [0x47, 0x6F, 0x6F, 0x64, 0x2E], origin = PStr (code_points ''twitter''),
      tags = PList [PStr (code_points ''sea''), PStr (code_points ''ice'')], misc = PInt 5\<rparr>"

definition example_fresh :: Content where
  "example_fresh =
     \<lparr>u_source = PDict
        [(''title'', PStr (code_points ''Oceans'')),
         (''author'', PList [PStr (code_points ''Ann'')]),
         (''date'', PStr (code_points ''2019-05-01 12:00:00'')),
         (''url'', PStr (code_points ''https://example.org/a'')),
         (''body'', PStr (code_points ''Good.'')),
         (''origin'', PStr (code_points ''twitter'')),
         (''tags'', PList [PStr (code_points ''sea''), PStr (code_points ''ice'')]),
         (''misc'', PInt 5)],
      u_sentiment = PDict []\<rparr>"

text \<open>The mock client of the specification's tests: one sentence, no category.\<close>

definition mock_client :: client where
  "mock_client =
     \<lparr>analyze_sentiment = (\<lambda>doc. Inr
        \<lparr>document_sentiment = \<lparr>score = 0.5, magnitude = 0.8\<rparr>,
         sentences = [\<lparr>text_content = code_points ''Good.'',
                       sentence_sentiment = \<lparr>score = 0.9, magnitude = 0.9\<rparr>\<rparr>]\<rparr>),
      classify_text = (\<lambda>doc. Inr \<lparr>categories = []\<rparr>)\<rparr>"

definition tagging_client :: client where
  "tagging_client =
     \<lparr>analyze_sentiment = (\<lambda>doc. Inr
        \<lparr>document_sentiment = \<lparr>score = 0.5, magnitude = 0.8\<rparr>,
         sentences = [\<lparr>text_content = code_points ''Good.'',
                       sentence_sentiment = \<lparr>score = 0.9, magnitude = 0.9\<rparr>\<rparr>]\<rparr>),
      classify_text = (\<lambda>doc. Inr
        \<lparr>categories = [\<lparr>name = code_points ''/Science'', confidence = 0.9\<rparr>,
                       \<lparr>name = code_points ''/News'', confidence = 0.6\<rparr>]\<rparr>)\<rparr>"

definition failing_client :: client where
  "failing_client =
     \<lparr>analyze_sentiment = (\<lambda>doc. Inl (ClientError ''unavailable'')),
      classify_text = (\<lambda>doc. Inl (ClientError ''unavailable''))\<rparr>"

text \<open>The fresh example after \<open>sentiment = {"lang": "en"}\<close>, after \<open>analyse\<close>, and after \<open>classify\<close>.\<close>

definition example_tagged :: Content where
  "example_tagged = example_fresh\<lparr>u_sentiment := PDict [(''lang'', PStr (code_points ''en''))]\<rparr>"

definition example_analysed :: Content where
  "example_analysed = example_fresh\<lparr>u_sentiment :=
     PDict [(''overall'', PDict [(''score'', PFloat 0.5), (''magnitude'', PFloat 0.8)]),
            (''content'', PList [PDict [(''text'', PStr (code_points ''Good.'')),
                                        (''score'', PFloat 0.9), (''magnitude'', PFloat 0.9)]])]\<rparr>"

definition example_classified :: Content where
  "example_classified = example_fresh\<lparr>u_sentiment :=
     PDict [(''overall'',
             PDict [(''score'', PFloat 0.5), (''magnitude'', PFloat 0.8),
                    (''categories'',
                     PList [PDict [(''category'', PStr []), (''confidence'', PInt 1)]])]),
            (''content'', PList [PDict [(''text'', PStr (code_points ''Good.'')),
                                        (''score'', PFloat 0.9), (''magnitude'', PFloat 0.9)]])]\<rparr>"




lemmas example_defs =
  example_args_def example_str_def example_fresh_def example_analysed_def
  example_classified_def mock_client_def code_points_def

lemmas method_defs =
  analyse_def analyse_document_def classify_def classify_document_def seq_def
  mutate_sentiment_def source_def sentiment_def bind_e_def append_at_def
  init_categories_def append_category_def no_category_found_def
  overall_entry_def sentence_entry_def category_entry_def sentinel_entry_def Let_def

section \<open>Construction and the two properties\<close>

lemma isinstance_dict_iff: "isinstance_dict v \<longleftrightarrow> (\<exists>d. v = PDict d)"
  by (cases v) simp_all

lemma isinstance_binary_type_iff: "isinstance_binary_type v \<longleftrightarrow> (\<exists>bs. v = PBytes bs)"
  by (cases v) simp_all

lemma Content_init_body:
  assumes "(if isinstance_binary_type (body a) then decode (body a) else Inr (body a)) = Inr b"
  shows "Content_init str_of a =
     Inr \<lparr>u_source = PDict
            [(''title'', title a),
             (''author'', if isinstance_str (author a) then PList [author a] else author a),
             (''date'', PStr (str_of (date a))),
             (''url'', url a),
             (''body'', b),
             (''origin'', origin a),
             (''tags'', if isinstance_str (tags a) then PList [tags a] else tags a),
             (''misc'', if isinstance_str (misc a) then PList [misc a] else misc a)],
          u_sentiment = PDict []\<rparr>"
  using assms
  by (simp add: Content_init_def bind_e_def source_setter_def sentiment_setter_def Let_def)

lemma Content_init_raises:
  "(if isinstance_binary_type (body a) then decode (body a) else Inr (body a)) = Inl e \<Longrightarrow>
   Content_init str_of a = Inl e"
  by (simp add: Content_init_def bind_e_def Let_def)

lemma example_fresh_init: "Content_init example_str example_args = Inr example_fresh"
  by (simp add: Content_init_body example_defs continuation_def)

text \<open>
  C4: for every value \<open>v\<close>, assigning \<open>v\<close> to \<open>source\<close> or to \<open>sentiment\<close> raises
  \<open>TypeError\<close> exactly when \<open>v\<close> is not a dictionary, and then the instance is as it was;
  when \<open>v\<close> is a dictionary the assignment raises nothing, the getter returns \<open>v\<close>, and
  the other field is untouched.
\<close>

theorem setter_type_check:
  "(fst (source_setter v c) = Some TypeError \<longleftrightarrow> \<not> isinstance_dict v)
   \<and> (\<not> isinstance_dict v \<longrightarrow> snd (source_setter v c) = c)
   \<and> (isinstance_dict v \<longrightarrow>
        fst (source_setter v c) = None \<and> source (snd (source_setter v c)) = v
        \<and> sentiment (snd (source_setter v c)) = sentiment c)
   \<and> (fst (sentiment_setter v c) = Some TypeError \<longleftrightarrow> \<not> isinstance_dict v)
   \<and> (\<not> isinstance_dict v \<longrightarrow> snd (sentiment_setter v c) = c)
   \<and> (isinstance_dict v \<longrightarrow>
        fst (sentiment_setter v c) = None \<and> sentiment (snd (sentiment_setter v c)) = v
        \<and> source (snd (sentiment_setter v c)) = source c)"
  by (simp add: source_setter_def sentiment_setter_def source_def sentiment_def)

theorem setter_type_check_witness:
  "fst (source_setter (PList []) example_fresh) = Some TypeError
   \<and> snd (source_setter (PList []) example_fresh) = example_fresh
   \<and> fst (sentiment_setter (PStr (code_points ''x'')) example_fresh) = Some TypeError
   \<and> snd (sentiment_setter (PStr (code_points ''x'')) example_fresh) = example_fresh
   \<and> fst (source_setter (PDict [(''title'', PNone)]) example_fresh) = None
   \<and> source (snd (source_setter (PDict [(''title'', PNone)]) example_fresh))
       = PDict [(''title'', PNone)]
   \<and> fst (sentiment_setter (PDict [(''overall'', PInt 3)]) example_fresh) = None
   \<and> sentiment (snd (sentiment_setter (PDict [(''overall'', PInt 3)]) example_fresh))
       = PDict [(''overall'', PInt 3)]"
  using setter_type_check [of "PList []" example_fresh]
        setter_type_check [of "PStr (code_points ''x'')" example_fresh]
        setter_type_check [of "PDict [(''title'', PNone)]" example_fresh]
        setter_type_check [of "PDict [(''overall'', PInt 3)]" example_fresh]
  by simp

text \<open>
  C3: when \<open>body\<close> is a \<open>bytes\<close> value that is valid UTF-8, the constructor succeeds and
  \<open>source['body']\<close> is the text those bytes decode to; when \<open>body\<close> is already text, the
  constructor succeeds and \<open>source['body']\<close> is that text.
\<close>

theorem body_stored_as_text:
  "(body a = PBytes bs \<and> utf8_decode bs = Some t \<longrightarrow>
      stored_field str_of a ''body'' = Inr (PStr t))
   \<and> (body a = PStr t \<longrightarrow> stored_field str_of a ''body'' = Inr (PStr t))"
  by (auto simp add: stored_field_def Content_init_body bind_e_def source_def)

theorem body_stored_as_text_witness:
  "utf8_decode [0x48, 0xC3, 0xA9] = Some [72, 233]
   \<and> stored_field example_str (example_args\<lparr>body := PBytes [0x48, 0xC3, 0xA9]\<rparr>) ''body''
       = Inr (PStr [72, 233])
   \<and> stored_field example_str (example_args\<lparr>body := PStr [72, 233]\<rparr>) ''body''
       = Inr (PStr [72, 233])"
  using body_stored_as_text
          [of "example_args\<lparr>body := PBytes [0x48, 0xC3, 0xA9]\<rparr>" "[0x48, 0xC3, 0xA9]"
              "[72, 233]" example_str]
        body_stored_as_text
          [of "example_args\<lparr>body := PStr [72, 233]\<rparr>" "[]" "[72, 233]" example_str]
  by (simp add: continuation_def)

text \<open>
  C2, as the claim states it, fails: the constructor wraps a value only when it is a
  \<open>str\<close>.  The example passes the number \<open>5\<close> as \<open>misc\<close>, and \<open>source['misc']\<close> is \<open>5\<close>, not
  a one-element list.
\<close>

theorem scalar_not_wrapped:
  "Content_init example_str example_args = Inr example_fresh
   \<and> misc example_args = PInt 5
   \<and> getitem (source example_fresh) ''misc'' = Inr (PInt 5)
   \<and> getitem (source example_fresh) ''misc'' \<noteq> Inr (PList [PInt 5])"
  by (simp add: example_fresh_init) (simp add: example_defs source_def)

text \<open>
  C2, amended: whenever the constructor succeeds, each of \<open>author\<close>, \<open>tags\<close> and \<open>misc\<close>
  that is a \<open>str\<close> is stored as the one-element list holding it, and each that is not a
  \<open>str\<close> (a list or any other value) is stored unchanged.
\<close>

theorem text_wrapped_others_kept:
  assumes "Content_init str_of a = Inr c"
  shows "(isinstance_str (author a) \<longrightarrow> getitem (source c) ''author'' = Inr (PList [author a]))
   \<and> (\<not> isinstance_str (author a) \<longrightarrow> getitem (source c) ''author'' = Inr (author a))
   \<and> (isinstance_str (tags a) \<longrightarrow> getitem (source c) ''tags'' = Inr (PList [tags a]))
   \<and> (\<not> isinstance_str (tags a) \<longrightarrow> getitem (source c) ''tags'' = Inr (tags a))
   \<and> (isinstance_str (misc a) \<longrightarrow> getitem (source c) ''misc'' = Inr (PList [misc a]))
   \<and> (\<not> isinstance_str (misc a) \<longrightarrow> getitem (source c) ''misc'' = Inr (misc a))"
proof (cases "if isinstance_binary_type (body a) then decode (body a) else Inr (body a)")
  case (Inl e)
  then have "Content_init str_of a = Inl e" by (rule Content_init_raises)
  with assms show ?thesis by simp
next
  case (Inr b)
  from Content_init_body [OF Inr, of str_of] assms show ?thesis
    by (auto simp add: source_def)
qed

theorem text_wrapped_others_kept_witness:
  "getitem (source example_fresh) ''author'' = Inr (PList [PStr (code_points ''Ann'')])
   \<and> getitem (source example_fresh) ''tags''
       = Inr (PList [PStr (code_points ''sea''), PStr (code_points ''ice'')])
   \<and> getitem (source example_fresh) ''misc'' = Inr (PInt 5)"
  using text_wrapped_others_kept [OF example_fresh_init]
  by (simp add: example_args_def)

section \<open>Serialisation\<close>

text \<open>
  C8: for every instance, \<open>jsonify(client, automagic=False)\<close> returns the mapping
  \<open>{"source": source, "sentiment": sentiment}\<close>, sends no request to the client, and
  leaves both fields as they were.
\<close>

theorem jsonify_plain:
  "jsonify cl False w = (Inr (PDict [(''source'', source (self w)), (''sentiment'', sentiment (self w))]), w)"
  by (simp add: jsonify_def as_mapping_def)

text \<open>
  C1: for every instance (a fresh one in particular) and every client with fixed
  responses, \<open>jsonify(client, automagic=True)\<close> returns the same value, raises the same
  exception and leaves the same instance and the same requests behind as \<open>analyse\<close>
  followed by \<open>classify\<close> followed by reading the two fields.
\<close>

theorem jsonify_automagic_refines:
  "jsonify cl True w = analyse_classify_read cl w"
  by (simp add: jsonify_def analyse_classify_read_def seq_def as_mapping_def
           split: prod.splits option.splits)

section \<open>What the two methods compute\<close>

lemma mutate_sentiment_ok:
  "f (u_sentiment (self w)) = Inr s \<Longrightarrow>
   mutate_sentiment f w = (None, w\<lparr>self := (self w)\<lparr>u_sentiment := s\<rparr>\<rparr>)"
  by (simp add: mutate_sentiment_def sentiment_def)

lemma mutate_sentiment_fail:
  "f (u_sentiment (self w)) = Inl e \<Longrightarrow> mutate_sentiment f w = (Some e, w)"
  by (simp add: mutate_sentiment_def sentiment_def)

lemma append_at_dict:
  "map_of d k = Some (PList acc) \<Longrightarrow>
   append_at (PDict d) k v = Inr (PDict (AList.update k (PList (acc @ [v])) d))"
  by (simp add: append_at_def bind_e_def)

lemma analyse_loop_dict:
  "u_sentiment (self w) = PDict d \<Longrightarrow> map_of d ''content'' = Some (PList acc) \<Longrightarrow>
   analyse_loop ss w =
     (None, w\<lparr>self := (self w)\<lparr>u_sentiment :=
        PDict (AList.update ''content'' (PList (acc @ map sentence_entry ss)) d)\<rparr>\<rparr>)"
proof (induction ss arbitrary: w d acc)
  case Nil
  then show ?case by (simp add: update_triv)
next
  case (Cons s ss)
  let ?d1 = "AList.update ''content'' (PList (acc @ [sentence_entry s])) d"
  let ?w1 = "w\<lparr>self := (self w)\<lparr>u_sentiment := PDict ?d1\<rparr>\<rparr>"
  have step: "mutate_sentiment (\<lambda>sent. append_at sent ''content'' (sentence_entry s)) w = (None, ?w1)"
    using Cons.prems by (simp add: mutate_sentiment_ok append_at_dict)
  have "analyse_loop ss ?w1 =
     (None, ?w1\<lparr>self := (self ?w1)\<lparr>u_sentiment :=
        PDict (AList.update ''content'' (PList ((acc @ [sentence_entry s]) @ map sentence_entry ss)) ?d1)\<rparr>\<rparr>)"
    by (rule Cons.IH) (simp_all add: update_conv')
  with step show ?case by (simp add: seq_def)
qed





lemma setitem_not_dict: "\<not> isinstance_dict v \<Longrightarrow> setitem v k x = Inl TypeError"
  by (cases v) simp_all

lemma getitem_not_dict: "\<not> isinstance_dict v \<Longrightarrow> getitem v k = Inl TypeError"
  by (cases v) simp_all

lemma world_self_id [simp]: "w\<lparr>self := (self w)\<lparr>u_sentiment := u_sentiment (self w)\<rparr>\<rparr> = w"
  by simp

lemma analyse_returns:
  assumes "analyse_document (self w) = Inr doc"
    and "analyze_sentiment cl doc = Inr ann"
    and "u_sentiment (self w) = PDict d"
  shows "analyse cl w =
     (None, w\<lparr>calls := calls w @ [AnalyzeSentiment doc],
              self := (self w)\<lparr>u_sentiment :=
                PDict (AList.update ''content'' (PList (map sentence_entry (sentences ann)))
                         (AList.update ''overall'' (overall_entry ann) d))\<rparr>\<rparr>)"
proof -
  let ?w1 = "w\<lparr>calls := calls w @ [AnalyzeSentiment doc]\<rparr>"
  let ?d1 = "AList.update ''overall'' (overall_entry ann) d"
  let ?w2 = "?w1\<lparr>self := (self ?w1)\<lparr>u_sentiment := PDict ?d1\<rparr>\<rparr>"
  let ?d2 = "AList.update ''content'' (PList []) ?d1"
  let ?w3 = "?w2\<lparr>self := (self ?w2)\<lparr>u_sentiment := PDict ?d2\<rparr>\<rparr>"
  have s1: "mutate_sentiment (\<lambda>sent. setitem sent ''overall'' (overall_entry ann)) ?w1 = (None, ?w2)"
    using assms(3) by (simp add: mutate_sentiment_ok)
  have s2: "mutate_sentiment (\<lambda>sent. setitem sent ''content'' (PList [])) ?w2 = (None, ?w3)"
    by (simp add: mutate_sentiment_ok)
  have s3: "analyse_loop (sentences ann) ?w3 =
     (None, ?w3\<lparr>self := (self ?w3)\<lparr>u_sentiment :=
        PDict (AList.update ''content'' (PList ([] @ map sentence_entry (sentences ann))) ?d2)\<rparr>\<rparr>)"
    by (rule analyse_loop_dict) (simp_all add: update_conv')
  show ?thesis
    using assms(1,2) s1 s2 s3
    by (simp add: analyse_def Let_def seq_def overall_entry_def)
qed

lemma analyse_not_dict:
  assumes "analyse_document (self w) = Inr doc"
    and "analyze_sentiment cl doc = Inr ann"
    and "\<not> isinstance_dict (u_sentiment (self w))"
  shows "analyse cl w = (Some TypeError, w\<lparr>calls := calls w @ [AnalyzeSentiment doc]\<rparr>)"
  using assms
  by (simp add: analyse_def Let_def seq_def mutate_sentiment_def sentiment_def setitem_not_dict)

lemma analyse_cases:
  obtains (no_document) e where "analyse_document (self w) = Inl e" "analyse cl w = (Some e, w)"
  | (client_raises) doc e where "analyse_document (self w) = Inr doc" "analyze_sentiment cl doc = Inl e"
      "analyse cl w = (Some e, w\<lparr>calls := calls w @ [AnalyzeSentiment doc]\<rparr>)"
  | (not_dict) doc ann where "analyse_document (self w) = Inr doc" "analyze_sentiment cl doc = Inr ann"
      "\<not> isinstance_dict (u_sentiment (self w))"
      "analyse cl w = (Some TypeError, w\<lparr>calls := calls w @ [AnalyzeSentiment doc]\<rparr>)"
  | (returns) doc ann d where "analyse_document (self w) = Inr doc" "analyze_sentiment cl doc = Inr ann"
      "u_sentiment (self w) = PDict d"
      "analyse cl w =
        (None, w\<lparr>calls := calls w @ [AnalyzeSentiment doc],
              self := (self w)\<lparr>u_sentiment :=
                PDict (AList.update ''content'' (PList (map sentence_entry (sentences ann)))
                         (AList.update ''overall'' (overall_entry ann) d))\<rparr>\<rparr>)"
proof (cases "analyse_document (self w)")
  case (Inl e)
  then have "analyse cl w = (Some e, w)" by (simp add: analyse_def)
  with Inl show ?thesis by (rule no_document)
next
  case doc: (Inr doc)
  show ?thesis
  proof (cases "analyze_sentiment cl doc")
    case (Inl e)
    with doc have "analyse cl w = (Some e, w\<lparr>calls := calls w @ [AnalyzeSentiment doc]\<rparr>)"
      by (simp add: analyse_def Let_def)
    with doc Inl show ?thesis by (rule client_raises)
  next
    case ann: (Inr ann)
    show ?thesis
    proof (cases "isinstance_dict (u_sentiment (self w))")
      case False
      with doc ann show ?thesis by (rule not_dict) (rule analyse_not_dict [OF doc ann False])
    next
      case True
      then obtain d where d: "u_sentiment (self w) = PDict d"
        by (auto simp add: isinstance_dict_iff)
      from doc ann d show ?thesis by (rule returns) (rule analyse_returns [OF doc ann d])
    qed
  qed
qed



lemma append_category_dict:
  "map_of d ''overall'' = Some (PDict ov) \<Longrightarrow> map_of ov ''categories'' = Some (PList acc) \<Longrightarrow>
   append_category v (PDict d) =
     Inr (PDict (AList.update ''overall''
                   (PDict (AList.update ''categories'' (PList (acc @ [v])) ov)) d))"
  by (simp add: append_category_def bind_e_def append_at_dict)

lemma init_categories_dict:
  "map_of d ''overall'' = Some (PDict ov) \<Longrightarrow>
   init_categories (PDict d) =
     Inr (PDict (AList.update ''overall'' (PDict (AList.update ''categories'' (PList []) ov)) d))"
  by (simp add: init_categories_def bind_e_def)

lemma init_categories_raises:
  "\<not> (\<exists>d ov. s = PDict d \<and> map_of d ''overall'' = Some (PDict ov)) \<Longrightarrow>
   \<exists>e. init_categories s = Inl e"
  by (cases s) (auto simp add: init_categories_def bind_e_def setitem_not_dict isinstance_dict_iff
        split: option.splits sum.splits)

lemma init_categories_no_overall:
  "getitem s ''overall'' = Inl e \<Longrightarrow> init_categories s = Inl e"
  by (simp add: init_categories_def bind_e_def)

lemma classify_loop_dict:
  "u_sentiment (self w) = PDict d \<Longrightarrow> map_of d ''overall'' = Some (PDict ov) \<Longrightarrow>
   map_of ov ''categories'' = Some (PList acc) \<Longrightarrow>
   classify_loop cats w =
     (None, w\<lparr>self := (self w)\<lparr>u_sentiment :=
        PDict (AList.update ''overall''
                 (PDict (AList.update ''categories'' (PList (acc @ map category_entry cats)) ov)) d)\<rparr>\<rparr>)"
proof (induction cats arbitrary: w d ov acc)
  case Nil
  then show ?case by (simp add: update_triv)
next
  case (Cons cat cats)
  let ?ov1 = "AList.update ''categories'' (PList (acc @ [category_entry cat])) ov"
  let ?d1 = "AList.update ''overall'' (PDict ?ov1) d"
  let ?w1 = "w\<lparr>self := (self w)\<lparr>u_sentiment := PDict ?d1\<rparr>\<rparr>"
  have step: "mutate_sentiment (append_category (category_entry cat)) w = (None, ?w1)"
    using Cons.prems by (simp add: mutate_sentiment_ok append_category_dict)
  have "classify_loop cats ?w1 =
     (None, ?w1\<lparr>self := (self ?w1)\<lparr>u_sentiment :=
        PDict (AList.update ''overall''
                 (PDict (AList.update ''categories''
                    (PList ((acc @ [category_entry cat]) @ map category_entry cats)) ?ov1)) ?d1)\<rparr>\<rparr>)"
    by (rule Cons.IH) (simp_all add: update_conv')
  with step show ?case by (simp add: seq_def)
qed

lemma no_category_found_dict:
  assumes "u_sentiment (self w) = PDict d" and "map_of d ''overall'' = Some (PDict ov)"
    and "map_of ov ''categories'' = Some (PList xs)"
  shows "no_category_found w =
     (None, w\<lparr>self := (self w)\<lparr>u_sentiment :=
        PDict (AList.update ''overall''
                 (PDict (AList.update ''categories''
                    (PList (if xs = [] then [sentinel_entry] else xs)) ov)) d)\<rparr>\<rparr>)"
proof (cases "xs = []")
  case True
  with assms show ?thesis
    by (simp add: no_category_found_def sentiment_def bind_e_def mutate_sentiment_ok
          append_category_dict)
next
  case False
  with assms show ?thesis
    by (simp add: no_category_found_def sentiment_def bind_e_def update_triv)
qed

lemma classify_returns:
  assumes "classify_document (self w) = Inr doc"
    and "classify_text cl doc = Inr resp"
    and "u_sentiment (self w) = PDict d"
    and "map_of d ''overall'' = Some (PDict ov)"
  shows "classify cl w =
     (None, w\<lparr>calls := calls w @ [ClassifyText doc],
              self := (self w)\<lparr>u_sentiment :=
                PDict (AList.update ''overall''
                         (PDict (AList.update ''categories'' (PList (category_entries resp)) ov))
                         d)\<rparr>\<rparr>)"
proof -
  let ?w1 = "w\<lparr>calls := calls w @ [ClassifyText doc]\<rparr>"
  let ?ov2 = "AList.update ''categories'' (PList []) ov"
  let ?d2 = "AList.update ''overall'' (PDict ?ov2) d"
  let ?w2 = "?w1\<lparr>self := (self ?w1)\<lparr>u_sentiment := PDict ?d2\<rparr>\<rparr>"
  let ?xs = "map category_entry (categories resp)"
  let ?ov3 = "AList.update ''categories'' (PList ([] @ ?xs)) ?ov2"
  let ?d3 = "AList.update ''overall'' (PDict ?ov3) ?d2"
  let ?w3 = "?w2\<lparr>self := (self ?w2)\<lparr>u_sentiment := PDict ?d3\<rparr>\<rparr>"
  have s1: "mutate_sentiment init_categories ?w1 = (None, ?w2)"
    using assms(3,4) by (simp add: mutate_sentiment_ok init_categories_dict)
  have s2: "classify_loop (categories resp) ?w2 = (None, ?w3)"
    by (rule classify_loop_dict) (simp_all add: update_conv')
  have s3: "no_category_found ?w3 =
     (None, ?w3\<lparr>self := (self ?w3)\<lparr>u_sentiment :=
        PDict (AList.update ''overall''
                 (PDict (AList.update ''categories''
                    (PList (if ?xs = [] then [sentinel_entry] else ?xs)) ?ov3)) ?d3)\<rparr>\<rparr>)"
    by (rule no_category_found_dict) (simp_all add: update_conv')
  show ?thesis
    using assms(1,2) s1 s2 s3
    by (simp add: classify_def Let_def seq_def category_entries_def)
qed

lemma classify_no_overall:
  assumes "classify_document (self w) = Inr doc"
    and "classify_text cl doc = Inr resp"
    and "init_categories (u_sentiment (self w)) = Inl e"
  shows "classify cl w = (Some e, w\<lparr>calls := calls w @ [ClassifyText doc]\<rparr>)"
  using assms
  by (simp add: classify_def Let_def seq_def mutate_sentiment_def sentiment_def)

lemma classify_cases:
  obtains (no_document) e where "classify_document (self w) = Inl e" "classify cl w = (Some e, w)"
  | (client_raises) doc e where "classify_document (self w) = Inr doc" "classify_text cl doc = Inl e"
      "classify cl w = (Some e, w\<lparr>calls := calls w @ [ClassifyText doc]\<rparr>)"
  | (no_overall) doc resp e where "classify_document (self w) = Inr doc"
      "classify_text cl doc = Inr resp" "init_categories (u_sentiment (self w)) = Inl e"
      "classify cl w = (Some e, w\<lparr>calls := calls w @ [ClassifyText doc]\<rparr>)"
  | (returns) doc resp d ov where "classify_document (self w) = Inr doc"
      "classify_text cl doc = Inr resp" "u_sentiment (self w) = PDict d"
      "map_of d ''overall'' = Some (PDict ov)"
      "classify cl w =
        (None, w\<lparr>calls := calls w @ [ClassifyText doc],
              self := (self w)\<lparr>u_sentiment :=
                PDict (AList.update ''overall''
                         (PDict (AList.update ''categories'' (PList (category_entries resp)) ov))
                         d)\<rparr>\<rparr>)"
proof (cases "classify_document (self w)")
  case (Inl e)
  then have "classify cl w = (Some e, w)" by (simp add: classify_def)
  with Inl show ?thesis by (rule no_document)
next
  case doc: (Inr doc)
  show ?thesis
  proof (cases "classify_text cl doc")
    case (Inl e)
    with doc have "classify cl w = (Some e, w\<lparr>calls := calls w @ [ClassifyText doc]\<rparr>)"
      by (simp add: classify_def Let_def)
    with doc Inl show ?thesis by (rule client_raises)
  next
    case resp: (Inr resp)
    show ?thesis
    proof (cases "\<exists>d ov. u_sentiment (self w) = PDict d \<and> map_of d ''overall'' = Some (PDict ov)")
      case False
      then obtain e where e: "init_categories (u_sentiment (self w)) = Inl e"
        using init_categories_raises by blast
      from doc resp e show ?thesis by (rule no_overall) (rule classify_no_overall [OF doc resp e])
    next
      case True
      then obtain d ov where d: "u_sentiment (self w) = PDict d"
        and ov: "map_of d ''overall'' = Some (PDict ov)"
        by blast
      from doc resp d ov show ?thesis by (rule returns) (rule classify_returns [OF doc resp d ov])
    qed
  qed
qed

lemma example_analyse:
  "analyse mock_client \<lparr>self = example_fresh, calls = []\<rparr> =
     (None, \<lparr>self = example_analysed,
             calls = [AnalyzeSentiment
                        \<lparr>content = PStr (code_points ''Good.''), doc_type = PLAIN_TEXT\<rparr>]\<rparr>)"
  by (simp add: example_defs method_defs)

lemma example_classify:
  "classify mock_client \<lparr>self = example_analysed, calls = []\<rparr> =
     (None, \<lparr>self = example_classified,
             calls = [ClassifyText
                        \<lparr>content = PBytes [0x47, 0x6F, 0x6F, 0x64, 0x2E],
                         doc_type = PLAIN_TEXT\<rparr>]\<rparr>)"
  by (simp add: example_defs method_defs)

section \<open>Sentiment analysis\<close>

text \<open>
  C6, as the claim states it, fails for an instance whose sentiment mapping already
  holds another key.  After \<open>sentiment = {"lang": "en"}\<close> on the fresh example, \<open>analyse\<close>
  with the mock client returns normally and the sentiment mapping has three keys.
\<close>

theorem analyse_keeps_other_keys:
  "Content_init example_str example_args = Inr example_fresh
   \<and> sentiment_setter (PDict [(''lang'', PStr (code_points ''en''))]) example_fresh
       = (None, example_tagged)
   \<and> fst (analyse mock_client \<lparr>self = example_tagged, calls = []\<rparr>) = None
   \<and> sentiment (self (snd (analyse mock_client \<lparr>self = example_tagged, calls = []\<rparr>)))
       = PDict [(''lang'', PStr (code_points ''en'')),
                (''overall'', PDict [(''score'', PFloat 0.5), (''magnitude'', PFloat 0.8)]),
                (''content'', PList [PDict [(''text'', PStr (code_points ''Good.'')),
                                            (''score'', PFloat 0.9),
                                            (''magnitude'', PFloat 0.9)]])]
   \<and> getitem (sentiment (self (snd (analyse mock_client \<lparr>self = example_tagged, calls = []\<rparr>))))
         ''lang'' = Inr (PStr (code_points ''en''))"
  by (simp add: example_fresh_init)
     (simp add: example_defs example_tagged_def method_defs sentiment_setter_def)

text \<open>
  C6, amended: let the sentiment mapping of the instance hold no key other than
  \<open>overall\<close> and \<open>content\<close> (a fresh instance holds none).  If \<open>analyse(client)\<close> returns and
  the client answered the request with annotations \<open>ann\<close>, then the sentiment mapping is
  a dictionary that maps \<open>overall\<close> to the document's score and magnitude, \<open>content\<close> to
  one \<open>{text, score, magnitude}\<close> entry per sentence of \<open>ann\<close> in order, and nothing else.
\<close>

theorem analyse_sets_sentiment:
  assumes "analyse cl w = (None, w')"
    and "analyse_document (self w) = Inr doc"
    and "analyze_sentiment cl doc = Inr ann"
    and "\<forall>k. k \<noteq> ''overall'' \<and> k \<noteq> ''content'' \<longrightarrow>
           getitem (sentiment (self w)) k = Inl (KeyError k)"
  shows "isinstance_dict (sentiment (self w'))
   \<and> getitem (sentiment (self w')) k =
       getitem
         (PDict [(''overall'',
                  PDict [(''score'', PFloat (score (document_sentiment ann))),
                         (''magnitude'', PFloat (magnitude (document_sentiment ann)))]),
                 (''content'', PList (map sentence_entry (sentences ann)))]) k"
proof (cases rule: analyse_cases [of w cl])
  case (returns doc' ann' d)
  with assms(2,3) have eq: "doc' = doc" "ann' = ann" by simp_all
  from returns(4) assms(1) eq have w': "sentiment (self w') =
      PDict (AList.update ''content'' (PList (map sentence_entry (sentences ann)))
               (AList.update ''overall'' (overall_entry ann) d))"
    by (auto simp add: sentiment_def)
  have other: "map_of d k = None" if "k \<noteq> ''overall''" "k \<noteq> ''content''"
    using assms(4) returns(3) that by (auto simp add: sentiment_def split: option.splits)
  show ?thesis
    using w' other by (simp add: update_conv' overall_entry_def)
qed (use assms(1) in simp_all)

theorem analyse_sets_sentiment_witness:
  "fst (analyse mock_client \<lparr>self = example_fresh, calls = []\<rparr>) = None
   \<and> getitem (sentiment (self (snd (analyse mock_client \<lparr>self = example_fresh, calls = []\<rparr>))))
         ''overall''
       = Inr (PDict [(''score'', PFloat 0.5), (''magnitude'', PFloat 0.8)])
   \<and> getitem (sentiment (self (snd (analyse mock_client \<lparr>self = example_fresh, calls = []\<rparr>))))
         ''content''
       = Inr (PList [PDict [(''text'', PStr (code_points ''Good.'')),
                            (''score'', PFloat 0.9), (''magnitude'', PFloat 0.9)]])
   \<and> getitem (sentiment (self (snd (analyse mock_client \<lparr>self = example_fresh, calls = []\<rparr>))))
         ''lang''
       = Inl (KeyError ''lang'')"
proof -
  let ?w = "\<lparr>self = example_fresh, calls = []\<rparr>"
  let ?doc = "\<lparr>content = PStr (code_points ''Good.''), doc_type = PLAIN_TEXT\<rparr>"
  let ?ann = "\<lparr>document_sentiment = \<lparr>score = 0.5, magnitude = 0.8\<rparr>,
               sentences = [\<lparr>text_content = code_points ''Good.'',
                             sentence_sentiment = \<lparr>score = 0.9, magnitude = 0.9\<rparr>\<rparr>]\<rparr>"
  have ret: "analyse mock_client ?w = (None, snd (analyse mock_client ?w))"
    by (simp add: example_analyse)
  have doc: "analyse_document (self ?w) = Inr ?doc"
    by (simp add: example_defs method_defs)
  have ann: "analyze_sentiment mock_client ?doc = Inr ?ann"
    by (simp add: mock_client_def)
  have keys: "\<forall>k. k \<noteq> ''overall'' \<and> k \<noteq> ''content'' \<longrightarrow>
                getitem (sentiment (self ?w)) k = Inl (KeyError k)"
    by (simp add: example_fresh_def sentiment_def)
  have none: "fst (analyse mock_client ?w) = None"
    by (simp add: example_analyse)
  note th = analyse_sets_sentiment [OF ret doc ann keys]
  from th [of "''overall''"] th [of "''content''"] th [of "''lang''"] none
  show ?thesis by (simp add: sentence_entry_def)
qed

section \<open>Classification\<close>

text \<open>
  C5, as the claim states it, fails: \<open>classify\<close> sends its request before it touches
  \<open>sentiment['overall']\<close>, so with a client that raises, the client's exception is what
  \<open>classify\<close> raises on a fresh instance, not a \<open>KeyError\<close>.
\<close>

theorem classify_client_error_first:
  "Content_init example_str example_args = Inr example_fresh
   \<and> getitem (sentiment example_fresh) ''overall'' = Inl (KeyError ''overall'')
   \<and> fst (classify failing_client \<lparr>self = example_fresh, calls = []\<rparr>)
       = Some (ClientError ''unavailable'')"
  by (simp add: example_fresh_init) (simp add: example_defs failing_client_def method_defs)

text \<open>
  C5, amended: let the sentiment mapping of the instance lack the key \<open>overall\<close>, let
  \<open>source['body']\<close> be text that encodes as UTF-8, so that the request can be built, and
  let the client answer that request.  Then \<open>classify(client)\<close> raises \<open>KeyError\<close> for
  \<open>overall\<close>, after the request was sent, and the instance is as it was.
\<close>

theorem classify_before_analyse:
  assumes "getitem (sentiment (self w)) ''overall'' = Inl (KeyError ''overall'')"
    and "classify_document (self w) = Inr doc"
    and "classify_text cl doc = Inr resp"
  shows "classify cl w = (Some (KeyError ''overall''), w\<lparr>calls := calls w @ [ClassifyText doc]\<rparr>)"
proof -
  from assms(1) have "init_categories (u_sentiment (self w)) = Inl (KeyError ''overall'')"
    by (simp add: init_categories_no_overall sentiment_def)
  with assms(2,3) show ?thesis by (rule classify_no_overall)
qed

theorem classify_before_analyse_witness:
  "classify mock_client \<lparr>self = example_fresh, calls = []\<rparr>
     = (Some (KeyError ''overall''),
        \<lparr>self = example_fresh,
         calls = [ClassifyText \<lparr>content = PBytes [0x47, 0x6F, 0x6F, 0x64, 0x2E],
                                 doc_type = PLAIN_TEXT\<rparr>]\<rparr>)"
proof -
  let ?w = "\<lparr>self = example_fresh, calls = []\<rparr>"
  let ?doc = "\<lparr>content = PBytes [0x47, 0x6F, 0x6F, 0x64, 0x2E], doc_type = PLAIN_TEXT\<rparr>"
  have key: "getitem (sentiment (self ?w)) ''overall'' = Inl (KeyError ''overall'')"
    by (simp add: example_fresh_def sentiment_def)
  have doc: "classify_document (self ?w) = Inr ?doc"
    by (simp add: example_defs method_defs)
  have resp: "classify_text mock_client ?doc = Inr \<lparr>categories = []\<rparr>"
    by (simp add: mock_client_def)
  from classify_before_analyse [OF key doc resp] show ?thesis by simp
qed

text \<open>
  C7: let the sentiment mapping of the instance contain the key \<open>overall\<close>.  If
  \<open>classify(client)\<close> returns and the client answered the request with \<open>resp\<close>, then
  \<open>sentiment['overall']['categories']\<close> is a non-empty list: exactly
  \<open>[{category: "", confidence: 1}]\<close> when \<open>resp\<close> has no category, and otherwise one
  \<open>{category, confidence}\<close> entry per category of \<open>resp\<close>, in order.
\<close>

theorem classify_categories:
  assumes "getitem (sentiment (self w)) ''overall'' = Inr ov"
    and "classify cl w = (None, w')"
    and "classify_document (self w) = Inr doc"
    and "classify_text cl doc = Inr resp"
  shows "bind_e (getitem (sentiment (self w')) ''overall'') (\<lambda>ov'. getitem ov' ''categories'')
     = Inr (PList (if categories resp = []
                   then [PDict [(''category'', PStr []), (''confidence'', PInt 1)]]
                   else map category_entry (categories resp)))
   \<and> bind_e (getitem (sentiment (self w')) ''overall'') (\<lambda>ov'. getitem ov' ''categories'')
     \<noteq> Inr (PList [])"
proof (cases rule: classify_cases [of w cl])
  case (returns doc' resp' d ov0)
  with assms(3,4) have eq: "doc' = doc" "resp' = resp" by simp_all
  from returns(5) assms(2) eq have "sentiment (self w') =
      PDict (AList.update ''overall''
               (PDict (AList.update ''categories'' (PList (category_entries resp)) ov0)) d)"
    by (auto simp add: sentiment_def)
  then show ?thesis
    by (simp add: bind_e_def update_conv' category_entries_def sentinel_entry_def)
qed (use assms(2) in simp_all)

theorem classify_categories_witness:
  "fst (classify mock_client \<lparr>self = example_analysed, calls = []\<rparr>) = None
   \<and> bind_e (getitem (sentiment (self (snd (classify mock_client
                                              \<lparr>self = example_analysed, calls = []\<rparr>))))
               ''overall'')
       (\<lambda>ov'. getitem ov' ''categories'')
     = Inr (PList [PDict [(''category'', PStr []), (''confidence'', PInt 1)]])
   \<and> fst (classify tagging_client \<lparr>self = example_analysed, calls = []\<rparr>) = None
   \<and> bind_e (getitem (sentiment (self (snd (classify tagging_client
                                              \<lparr>self = example_analysed, calls = []\<rparr>))))
               ''overall'')
       (\<lambda>ov'. getitem ov' ''categories'')
     = Inr (PList [PDict [(''category'', PStr (code_points ''/Science'')),
                          (''confidence'', PFloat 0.9)],
                   PDict [(''category'', PStr (code_points ''/News'')),
                          (''confidence'', PFloat 0.6)]])"
proof -
  let ?w = "\<lparr>self = example_analysed, calls = []\<rparr>"
  let ?doc = "\<lparr>content = PBytes [0x47, 0x6F, 0x6F, 0x64, 0x2E], doc_type = PLAIN_TEXT\<rparr>"
  let ?ov = "PDict [(''score'', PFloat 0.5), (''magnitude'', PFloat 0.8)]"
  let ?cats = "[\<lparr>name = code_points ''/Science'', confidence = 0.9\<rparr>,
                \<lparr>name = code_points ''/News'', confidence = 0.6\<rparr>]"
  have ov: "getitem (sentiment (self ?w)) ''overall'' = Inr ?ov"
    by (simp add: example_defs sentiment_def)
  have doc: "classify_document (self ?w) = Inr ?doc"
    by (simp add: example_defs method_defs)
  have none1: "fst (classify mock_client ?w) = None"
    by (simp add: example_classify)
  have ret1: "classify mock_client ?w = (None, snd (classify mock_client ?w))"
    by (simp add: example_classify)
  have resp1: "classify_text mock_client ?doc = Inr \<lparr>categories = []\<rparr>"
    by (simp add: mock_client_def)
  have none2: "fst (classify tagging_client ?w) = None"
    by (simp add: example_defs tagging_client_def method_defs)
  have ret2: "classify tagging_client ?w = (None, snd (classify tagging_client ?w))"
    using none2 by (metis prod.collapse)
  have resp2: "classify_text tagging_client ?doc = Inr \<lparr>categories = ?cats\<rparr>"
    by (simp add: tagging_client_def)
  from classify_categories [OF ov ret1 doc resp1] classify_categories [OF ov ret2 doc resp2]
    none1 none2
  show ?thesis by (simp add: category_entry_def)
qed

section \<open>The two methods on the store\<close>

lemma setitem_at_same:
  "map_of (h a) k = Some e \<Longrightarrow> setitem_at h a k e = h"
  by (simp add: setitem_at_def update_triv)

lemma setitem_at_twice [simp]:
  "setitem_at (setitem_at h a k e) a k e' = setitem_at h a k e'"
  by (simp add: setitem_at_def)


lemma append_content_list:
  "map_of (heap w (sentiment_at w)) ''content'' = Some (Imm (PList acc)) \<Longrightarrow>
   append_content v w =
     (None, w\<lparr>heap := setitem_at (heap w) (sentiment_at w) ''content'' (Imm (PList (acc @ [v])))\<rparr>)"
  by (simp add: append_content_def getitem_at_def)

lemma analyse_loop_st_list:
  "map_of (heap w (sentiment_at w)) ''content'' = Some (Imm (PList acc)) \<Longrightarrow>
   analyse_loop_st ss w =
     (None, w\<lparr>heap := setitem_at (heap w) (sentiment_at w) ''content''
                        (Imm (PList (acc @ map sentence_entry ss)))\<rparr>)"
proof (induction ss arbitrary: w acc)
  case Nil
  then show ?case by (simp add: setitem_at_same)
next
  case (Cons s ss)
  let ?w1 = "w\<lparr>heap := setitem_at (heap w) (sentiment_at w) ''content''
                          (Imm (PList (acc @ [sentence_entry s])))\<rparr>"
  have step: "append_content (sentence_entry s) w = (None, ?w1)"
    using Cons.prems by (rule append_content_list)
  have "analyse_loop_st ss ?w1 =
     (None, ?w1\<lparr>heap := setitem_at (heap ?w1) (sentiment_at ?w1) ''content''
                          (Imm (PList ((acc @ [sentence_entry s]) @ map sentence_entry ss)))\<rparr>)"
    by (rule Cons.IH) (simp add: setitem_at_def update_conv')
  with step show ?case by (simp add: seq_st_def)
qed

lemma analyse_st_returns:
  assumes "analyse_document_st w = Inr doc"
    and "analyze_sentiment cl doc = Inr ann"
  shows "analyse_st cl w =
     (None, w\<lparr>requests := requests w @ [AnalyzeSentiment doc],
              heap := setitem_at
                        (setitem_at (heap w) (sentiment_at w) ''overall'' (Imm (overall_entry ann)))
                        (sentiment_at w) ''content''
                        (Imm (PList (map sentence_entry (sentences ann))))\<rparr>)"
proof -
  let ?w1 = "w\<lparr>requests := requests w @ [AnalyzeSentiment doc]\<rparr>"
  let ?h2 = "setitem_at (heap w) (sentiment_at w) ''overall'' (Imm (overall_entry ann))"
  let ?h3 = "setitem_at ?h2 (sentiment_at w) ''content'' (Imm (PList []))"
  let ?w3 = "?w1\<lparr>heap := ?h3\<rparr>"
  have s3: "analyse_loop_st (sentences ann) ?w3 =
     (None, ?w3\<lparr>heap := setitem_at (heap ?w3) (sentiment_at ?w3) ''content''
                          (Imm (PList ([] @ map sentence_entry (sentences ann))))\<rparr>)"
    by (rule analyse_loop_st_list) (simp add: setitem_at_def update_conv')
  show ?thesis
    using assms s3
    by (simp add: analyse_st_def Let_def seq_st_def set_sentiment_item_def)
qed






text \<open>\<open>classify\<close> when \<open>sentiment['overall']\<close> is held by the sentiment dictionary alone.\<close>

lemma append_category_st_imm:
  assumes "map_of (heap w (sentiment_at w)) ''overall'' = Some (Imm (PDict ov))"
    and "map_of ov ''categories'' = Some (PList acc)"
  shows "append_category_st v w =
     (None, w\<lparr>heap := setitem_at (heap w) (sentiment_at w) ''overall''
                        (Imm (PDict (AList.update ''categories'' (PList (acc @ [v])) ov)))\<rparr>)"
  using assms by (simp add: append_category_st_def getitem_at_def append_at_dict)

lemma classify_loop_st_imm:
  assumes "map_of (heap w (sentiment_at w)) ''overall'' = Some (Imm (PDict ov))"
    and "map_of ov ''categories'' = Some (PList acc)"
  shows "classify_loop_st cats w =
     (None, w\<lparr>heap := setitem_at (heap w) (sentiment_at w) ''overall''
                        (Imm (PDict (AList.update ''categories''
                                       (PList (acc @ map category_entry cats)) ov)))\<rparr>)"
  using assms
proof (induction cats arbitrary: w ov acc)
  case Nil
  then show ?case by (simp add: setitem_at_same update_triv)
next
  case (Cons cat cats)
  let ?ov1 = "AList.update ''categories'' (PList (acc @ [category_entry cat])) ov"
  let ?w1 = "w\<lparr>heap := setitem_at (heap w) (sentiment_at w) ''overall'' (Imm (PDict ?ov1))\<rparr>"
  have step: "append_category_st (category_entry cat) w = (None, ?w1)"
    using Cons.prems by (rule append_category_st_imm)
  have "classify_loop_st cats ?w1 =
     (None, ?w1\<lparr>heap := setitem_at (heap ?w1) (sentiment_at ?w1) ''overall''
                          (Imm (PDict (AList.update ''categories''
                             (PList ((acc @ [category_entry cat]) @ map category_entry cats))
                             ?ov1)))\<rparr>)"
    by (rule Cons.IH) (simp_all add: setitem_at_def update_conv')
  with step show ?case by (simp add: seq_st_def)
qed

lemma no_category_found_st_imm:
  assumes "map_of (heap w (sentiment_at w)) ''overall'' = Some (Imm (PDict ov))"
    and "map_of ov ''categories'' = Some (PList xs)"
  shows "no_category_found_st w =
     (None, w\<lparr>heap := setitem_at (heap w) (sentiment_at w) ''overall''
                        (Imm (PDict (AList.update ''categories''
                                       (PList (if xs = [] then [sentinel_entry] else xs)) ov)))\<rparr>)"
proof (cases "xs = []")
  case True
  with assms show ?thesis
    by (simp add: no_category_found_st_def len_categories_def getitem_at_def bind_e_def
          append_category_st_imm)
next
  case False
  with assms show ?thesis
    by (simp add: no_category_found_st_def len_categories_def getitem_at_def bind_e_def
          setitem_at_same update_triv)
qed

lemma classify_st_imm:
  assumes "classify_document_st w = Inr doc"
    and "classify_text cl doc = Inr resp"
    and "map_of (heap w (sentiment_at w)) ''overall'' = Some (Imm (PDict ov))"
  shows "classify_st cl w =
     (None, w\<lparr>requests := requests w @ [ClassifyText doc],
              heap := setitem_at (heap w) (sentiment_at w) ''overall''
                        (Imm (PDict (AList.update ''categories''
                                       (PList (category_entries resp)) ov)))\<rparr>)"
proof -
  let ?w1 = "w\<lparr>requests := requests w @ [ClassifyText doc]\<rparr>"
  let ?xs = "map category_entry (categories resp)"
  let ?ov2 = "AList.update ''categories'' (PList []) ov"
  let ?w2 = "?w1\<lparr>heap := setitem_at (heap w) (sentiment_at w) ''overall'' (Imm (PDict ?ov2))\<rparr>"
  let ?ov3 = "AList.update ''categories'' (PList ([] @ ?xs)) ?ov2"
  let ?w3 = "?w2\<lparr>heap := setitem_at (heap ?w2) (sentiment_at ?w2) ''overall'' (Imm (PDict ?ov3))\<rparr>"
  have s1: "init_categories_st ?w1 = (None, ?w2)"
    using assms(3) by (simp add: init_categories_st_def getitem_at_def)
  have s2: "classify_loop_st (categories resp) ?w2 = (None, ?w3)"
    by (rule classify_loop_st_imm) (simp_all add: setitem_at_def update_conv')
  have s3: "no_category_found_st ?w3 =
     (None, ?w3\<lparr>heap := setitem_at (heap ?w3) (sentiment_at ?w3) ''overall''
                          (Imm (PDict (AList.update ''categories''
                             (PList (if ?xs = [] then [sentinel_entry] else ?xs)) ?ov3)))\<rparr>)"
    by (rule no_category_found_st_imm) (simp_all add: setitem_at_def update_conv')
  show ?thesis
    using assms(1,2) s1 s2 s3
    by (simp add: classify_st_def Let_def seq_st_def category_entries_def)
qed

lemma classify_st_no_overall:
  assumes "classify_document_st w = Inr doc"
    and "classify_text cl doc = Inr resp"
    and "init_categories_st (w\<lparr>requests := requests w @ [ClassifyText doc]\<rparr>) = (Some e, w2)"
  shows "classify_st cl w = (Some e, w2)"
  using assms by (simp add: classify_st_def Let_def seq_st_def)



section \<open>The first model is the store without sharing\<close>

lemma map_of_held: "map_of (map (\<lambda>(k, v). (k, Imm v)) d) k = map_option Imm (map_of d k)"
  by (induction d) auto

lemma update_held:
  "map (\<lambda>(k, v). (k, Imm v)) (AList.update k v d) =
     AList.update k (Imm v) (map (\<lambda>(k, v). (k, Imm v)) d)"
  by (induction d) auto

lemma store_of_requests: "requests (store_of w) = calls w"
  by (simp add: store_of_def)

lemma store_of_calls: "store_of (w\<lparr>calls := q\<rparr>) = (store_of w)\<lparr>requests := q\<rparr>"
  by (simp add: store_of_def fun_eq_iff)

lemma store_of_result:
  "store_of (w\<lparr>calls := q, self := (self w)\<lparr>u_sentiment := PDict d'\<rparr>\<rparr>) =
     (store_of w)\<lparr>requests := q,
                 heap := (heap (store_of w))
                           (sentiment_at (store_of w) := map (\<lambda>(k, v). (k, Imm v)) d')\<rparr>"
  by (simp add: store_of_def fun_eq_iff)

lemma store_of_held:
  "u_sentiment (self w) = PDict d \<Longrightarrow>
   heap (store_of w) (sentiment_at (store_of w)) = map (\<lambda>(k, v). (k, Imm v)) d"
  by (simp add: store_of_def)

lemma analyse_document_store_of:
  "u_source (self w) = PDict s \<Longrightarrow> analyse_document_st (store_of w) = analyse_document (self w)"
  by (simp add: analyse_document_st_def analyse_document_def store_of_def getitem_at_def
        source_def bind_e_def map_of_held split: option.splits)

lemma classify_document_store_of:
  "u_source (self w) = PDict s \<Longrightarrow> classify_document_st (store_of w) = classify_document (self w)"
  by (simp add: classify_document_st_def classify_document_def store_of_def getitem_at_def
        source_def bind_e_def map_of_held split: option.splits)

text \<open>
  On an instance whose two dictionaries are separate objects that hold their entries by
  value, the methods on the store do what the methods of the first model do.
\<close>

lemma analyse_on_separate_objects:
  assumes "u_source (self w) = PDict s" and "u_sentiment (self w) = PDict d"
  shows "analyse_st cl (store_of w) = (fst (analyse cl w), store_of (snd (analyse cl w)))"
proof (cases rule: analyse_cases [of w cl])
  case (no_document e)
  then show ?thesis
    by (simp add: analyse_st_def analyse_document_store_of [OF assms(1)])
next
  case (client_raises doc e)
  then show ?thesis
    by (simp add: analyse_st_def analyse_document_store_of [OF assms(1)] Let_def store_of_calls store_of_requests)
next
  case (not_dict doc ann)
  with assms(2) show ?thesis by simp
next
  case (returns doc ann d')
  with assms(2) have d': "d' = d" by simp
  have doc: "analyse_document_st (store_of w) = Inr doc"
    using returns(1) by (simp add: analyse_document_store_of [OF assms(1)])
  show ?thesis
    by (simp add: analyse_st_returns [OF doc returns(2)] returns(4) d' store_of_result
          store_of_requests store_of_held [OF assms(2)] setitem_at_def update_held)
qed

lemma classify_on_separate_objects:
  assumes "u_source (self w) = PDict s" and "u_sentiment (self w) = PDict d"
  shows "classify_st cl (store_of w) = (fst (classify cl w), store_of (snd (classify cl w)))"
proof (cases rule: classify_cases [of w cl])
  case (no_document e)
  then show ?thesis
    by (simp add: classify_st_def classify_document_store_of [OF assms(1)])
next
  case (client_raises doc e)
  then show ?thesis
    by (simp add: classify_st_def classify_document_store_of [OF assms(1)] Let_def store_of_calls store_of_requests)
next
  case (no_overall doc resp e)
  have doc: "classify_document_st (store_of w) = Inr doc"
    using no_overall(1) by (simp add: classify_document_store_of [OF assms(1)])
  let ?w1 = "(store_of w)\<lparr>requests := requests (store_of w) @ [ClassifyText doc]\<rparr>"
  have "init_categories_st ?w1 = (Some e, ?w1)"
    using no_overall(3) assms(2)
    by (auto simp add: init_categories_st_def init_categories_def getitem_at_def store_of_def
          map_of_held bind_e_def split: option.splits sum.splits)
  with doc no_overall(2) have "classify_st cl (store_of w) = (Some e, ?w1)"
    by (rule classify_st_no_overall)
  with no_overall(4) show ?thesis
    by (simp add: store_of_calls store_of_requests)
next
  case (returns doc resp d' ov)
  with assms(2) have d': "d' = d" by simp
  have doc: "classify_document_st (store_of w) = Inr doc"
    using returns(1) by (simp add: classify_document_store_of [OF assms(1)])
  have held: "map_of (heap (store_of w) (sentiment_at (store_of w))) ''overall''
      = Some (Imm (PDict ov))"
    using returns(4) by (simp add: store_of_held [OF assms(2)] map_of_held d')
  show ?thesis
    by (simp add: classify_st_imm [OF doc returns(2) held] returns(5) d' store_of_result
          store_of_requests store_of_held [OF assms(2)] setitem_at_def update_held)
qed

section \<open>What the two methods leave alone\<close>



lemma overall_item_missing:
  "map_of (heap w (sentiment_at w)) ''overall'' = None \<Longrightarrow>
   overall_item w k = Inl (KeyError ''overall'')"
  by (simp add: overall_item_def getitem_at_def)

lemma overall_item_requests [simp]: "overall_item (w\<lparr>requests := q\<rparr>) k = overall_item w k"
  by (simp add: overall_item_def split: sum.splits entry.splits)







end
